theory Spec2Isabelle
  imports Complex_Main
begin

section \<open>Data model of \<open>src/app/(preview)/page.tsx\<close>\<close>

text \<open>
  The page component \<open>ChatWithFiles\<close> keeps four pieces of React state (\<open>files\<close>,
  \<open>questions\<close>, \<open>isDragging\<close>, \<open>title\<close>) and reads two values from the streaming hook
  (\<open>object\<close>, bound to \<open>partialQuestions\<close>, and \<open>isLoading\<close>). Handlers are modelled as
  functions from the state of the render they were created in to the next state. The
  notifications sent with \<open>toast.error\<close> are appended to a log kept in the state, and
  \<open>pending\<close> counts the requests of the hook whose stream has neither finished nor failed.
\<close>

text \<open>
  A browser \<open>File\<close>, reduced to the three properties the page reads: \<open>file.name\<close>,
  \<open>file.type\<close> and \<open>file.size\<close> (a byte count).
\<close>

record File =
  f_name :: string
  f_type :: string
  f_size :: nat

text \<open>The objects built in \<open>handleSubmitWithFiles\<close>: \<open>{ name, type, data }\<close>.\<close>

record encodedFile =
  e_name :: string
  e_type :: string
  e_data :: string

text \<open>
  One streamed question object. While the stream is running any field may still be
  \<open>undefined\<close>, which is \<open>None\<close> here. A slot of the streamed array is such an object or
  \<open>undefined\<close>.
\<close>

record draft =
  question :: "string option"
  options :: "string list option"
  answer :: "string option"

type_synonym slot = "draft option"

record session =
  files :: "File list"
  questions :: "slot list"
  isDragging :: bool
  title :: "string option"
  partialQuestions :: "slot list option"
  isLoading :: bool
  toasts :: "string list"
  pending :: nat

text \<open>The values given to \<open>useState\<close> and to the hook's \<open>initialValue\<close>.\<close>

definition initial :: session where
  "initial = \<lparr>files = [], questions = [], isDragging = False, title = None,
     partialQuestions = None, isLoading = False, toasts = [], pending = 0\<rparr>"

definition toast_error :: "string \<Rightarrow> session \<Rightarrow> session" where
  "toast_error msg st = st\<lparr>toasts := toasts st @ [msg]\<rparr>"

section \<open>File selection\<close>

text \<open>
  The test \<open>/^((?!chrome|android).)*safari/i\<close> on the user agent. The pattern is anchored
  at the start: it matches when \<open>safari\<close> occurs at some position and no earlier position
  starts an occurrence of \<open>chrome\<close> or \<open>android\<close> or holds a line terminator (which \<open>.\<close>
  does not match). The flag \<open>i\<close> folds the ASCII letters. The user agent is a string of
  ASCII characters, as browsers send it.
\<close>

definition lower :: "char \<Rightarrow> char" where
  "lower c =
     (case map_of (zip ''ABCDEFGHIJKLMNOPQRSTUVWXYZ'' ''abcdefghijklmnopqrstuvwxyz'') c of
        Some l \<Rightarrow> l
      | None \<Rightarrow> c)"

fun starts :: "string \<Rightarrow> string \<Rightarrow> bool" where
  "starts [] s = True"
| "starts (w # ws) [] = False"
| "starts (w # ws) (c # cs) = (lower c = w \<and> starts ws cs)"

fun safari_scan :: "string \<Rightarrow> bool" where
  "safari_scan [] = False"
| "safari_scan (c # cs) =
     (if starts ''safari'' (c # cs) then True
      else if starts ''chrome'' (c # cs) \<or> starts ''android'' (c # cs) then False
      else if c = CHR 0x0A \<or> c = CHR 0x0D then False
      else safari_scan cs)"

definition isSafari :: "string \<Rightarrow> bool" where
  "isSafari userAgent = safari_scan userAgent"

definition validFile :: "File \<Rightarrow> bool" where
  "validFile f = (f_type f = ''application/pdf'' \<and> f_size f \<le> 5 * 1024 * 1024)"

text \<open>
  \<open>handleFileChange\<close>, with the user agent and the selected files (\<open>e.target.files || []\<close>)
  as arguments. On Safari during a drag gesture it only raises a notification and returns.
\<close>

definition handleFileChange :: "string \<Rightarrow> File list \<Rightarrow> session \<Rightarrow> session" where
  "handleFileChange userAgent selectedFiles st =
     (if isSafari userAgent \<and> isDragging st
      then toast_error ''Safari does not support drag & drop. Please use the file picker.'' st
      else
        let validFiles = filter validFile selectedFiles;
            st1 = (if length validFiles \<noteq> length selectedFiles
                   then toast_error ''Only PDF files under 5MB are allowed.'' st
                   else st)
        in st1\<lparr>files := validFiles\<rparr>)"

text \<open>
  \<open>onDrop\<close> calls \<open>setIsDragging(false)\<close> and then \<open>handleFileChange\<close>, which still reads the
  \<open>isDragging\<close> of the render the handler was created in.
\<close>

definition onDrop :: "string \<Rightarrow> File list \<Rightarrow> session \<Rightarrow> session" where
  "onDrop userAgent droppedFiles st = (handleFileChange userAgent droppedFiles st)\<lparr>isDragging := False\<rparr>"

definition onDragOver :: "session \<Rightarrow> session" where
  "onDragOver st = st\<lparr>isDragging := True\<rparr>"

definition onDragLeave :: "session \<Rightarrow> session" where
  "onDragLeave st = st\<lparr>isDragging := False\<rparr>"

section \<open>Progress\<close>

text \<open>
  \<open>const progress = partialQuestions ? (partialQuestions.length / 4) * 100 : 0\<close>. An
  array is truthy even when empty. The JavaScript numbers involved are exact: dividing
  an array length by 4 and multiplying by 100 rounds nowhere, so \<open>real\<close> computes the
  same value.
\<close>

definition progress :: "slot list option \<Rightarrow> real" where
  "progress pq = (case pq of None \<Rightarrow> 0 | Some p \<Rightarrow> (real (length p) / 4) * 100)"

text \<open>\<open>Math.round\<close>: the nearest integer, halves upwards.\<close>

definition Math_round :: "real \<Rightarrow> int" where
  "Math_round x = \<lfloor>x + 1 / 2\<rfloor>"

text \<open>The decimal text that a template literal gives a non-negative integer.\<close>

definition digit :: "nat \<Rightarrow> char" where
  "digit d = ''0123456789'' ! d"

function string_of_nat :: "nat \<Rightarrow> string" where
  "string_of_nat n = (if n < 10 then [digit n] else string_of_nat (n div 10) @ [digit (n mod 10)])"
  by pat_completeness auto
termination
  by (relation "measure id") auto

text \<open>
  What \<open>LoadingProgress\<close> shows: the rounded percentage, the value of the bar and the
  status line. It renders nothing (\<open>None\<close>) unless \<open>isLoading\<close>.
  \<open>partialQuestions?.filter(Boolean)\<close> drops the \<open>undefined\<close> slots; an object is truthy
  whatever its fields are.
\<close>

record progressView =
  percent :: int
  bar :: real
  label :: string

definition LoadingProgress :: "bool \<Rightarrow> real \<Rightarrow> slot list option \<Rightarrow> progressView option" where
  "LoadingProgress loading prog pq =
     (let validQuestions = map_option (filter (\<lambda>q. q \<noteq> None)) pq
      in if loading
         then Some \<lparr>percent = Math_round prog, bar = prog,
                label = (case validQuestions of
                           Some v \<Rightarrow> ''Generating question '' @ string_of_nat (length v + 1) @ '' of 4''
                         | None \<Rightarrow> ''Analyzing PDF content'')\<rparr>
         else None)"

section \<open>Callbacks of the streaming hook\<close>

definition onError :: "session \<Rightarrow> session" where
  "onError st = (toast_error ''Failed to generate quiz. Please try again.'' st)\<lparr>files := []\<rparr>"

text \<open>
  The filter of \<open>onFinish\<close>: \<open>q && q.question && q.options && q.answer\<close>. A string is
  truthy when it is not empty, an array always.
\<close>

definition truthy_string :: "string option \<Rightarrow> bool" where
  "truthy_string s = (case s of None \<Rightarrow> False | Some t \<Rightarrow> t \<noteq> [])"

definition fullQuestion :: "slot \<Rightarrow> bool" where
  "fullQuestion q =
     (case q of None \<Rightarrow> False
      | Some d \<Rightarrow> truthy_string (question d) \<and> options d \<noteq> None \<and> truthy_string (answer d))"

definition onFinish :: "slot list option \<Rightarrow> session \<Rightarrow> session" where
  "onFinish object st =
     (let validatedQuestions = map_option (filter fullQuestion) object
      in st\<lparr>questions := (case validatedQuestions of Some v \<Rightarrow> v | None \<Rightarrow> [])\<rparr>)"

definition clearPDF :: "session \<Rightarrow> session" where
  "clearPDF st = st\<lparr>files := [], questions := []\<rparr>"

section \<open>Submitting\<close>

text \<open>
  \<open>encodeFileAsBase64\<close> reads the file with a \<open>FileReader\<close>; the reader is the parameter
  \<open>enc\<close>, which gives the data URL or \<open>None\<close> when the read fails and the promise is
  rejected. \<open>Promise.all\<close> is rejected as soon as one encoding is.
\<close>

datatype submitError = ReadError | TypeError

fun encodeAll :: "(File \<Rightarrow> string option) \<Rightarrow> File list \<Rightarrow> encodedFile list option" where
  "encodeAll enc [] = Some []"
| "encodeAll enc (f # fs) =
     (case enc f of None \<Rightarrow> None
      | Some d \<Rightarrow> (case encodeAll enc fs of None \<Rightarrow> None
                   | Some es \<Rightarrow> Some (\<lparr>e_name = f_name f, e_type = f_type f, e_data = d\<rparr> # es)))"

text \<open>
  The hook's \<open>submit\<close>: one more request starts, \<open>isLoading\<close> becomes true and the streamed
  object is reset to \<open>undefined\<close>.
\<close>

definition submit :: "encodedFile list \<Rightarrow> session \<Rightarrow> session" where
  "submit payload st = st\<lparr>partialQuestions := None, isLoading := True, pending := pending st + 1\<rparr>"

text \<open>
  \<open>handleSubmitWithFiles\<close> up to its second \<open>await\<close>. The result is the argument given to
  \<open>generateQuizTitle\<close>, or the error the handler ends with: \<open>encodedFiles[0].name\<close> on an
  empty array reads a property of \<open>undefined\<close>, a \<open>TypeError\<close> thrown after \<open>submit\<close> ran.
\<close>

definition handleSubmitWithFiles :: "(File \<Rightarrow> string option) \<Rightarrow> session \<Rightarrow> (submitError + string) \<times> session" where
  "handleSubmitWithFiles enc st =
     (case encodeAll enc (files st) of
        None \<Rightarrow> (Inl ReadError, st)
      | Some encodedFiles \<Rightarrow>
          (let st1 = submit encodedFiles st
           in case encodedFiles of
                [] \<Rightarrow> (Inl TypeError, st1)
              | e # _ \<Rightarrow> (Inr (e_name e), st1)))"

text \<open>\<open>setTitle(generatedTitle)\<close>, when the title request resolves.\<close>

definition setTitle :: "string \<Rightarrow> session \<Rightarrow> session" where
  "setTitle generatedTitle st = st\<lparr>title := Some generatedTitle\<rparr>"

section \<open>Rendering\<close>

text \<open>
  What \<open>ChatWithFiles\<close> returns: the \<open>Quiz\<close> component with its title and questions, or
  the upload card. Of the card, the parts that depend on the state: the drag overlay, the
  text of the drop zone, the submit button and the progress footer.
\<close>

record uploadCard =
  overlay :: bool
  dropText :: string
  submitDisabled :: bool
  submitLabel :: string
  footer :: "progressView option"

datatype view = Quiz string "slot list" | Upload uploadCard

definition render :: "session \<Rightarrow> view" where
  "render st =
     (if length (questions st) = 4
      then Quiz (case title st of Some t \<Rightarrow> t | None \<Rightarrow> ''Quiz'') (questions st)
      else Upload \<lparr>overlay = isDragging st,
             dropText = (case files st of f # _ \<Rightarrow> f_name f
                         | [] \<Rightarrow> ''Drop your PDF here or click to browse.''),
             submitDisabled = (length (files st) = 0),
             submitLabel = (if isLoading st then ''Generating Quiz...'' else ''Generate Quiz''),
             footer = LoadingProgress (isLoading st) (progress (partialQuestions st)) (partialQuestions st)\<rparr>)"

fun isQuiz :: "view \<Rightarrow> bool" where
  "isQuiz (Quiz t qs) = True"
| "isQuiz (Upload c) = False"

section \<open>Sessions as sequences of events\<close>

text \<open>
  The events of a session, and the render in which each can happen. The drop zone and
  the form exist only in the upload card, the control bound to \<open>clearPDF\<close> only in the
  quiz. The submit button is disabled only while no file is staged, so a submission can
  start while another is in flight. The hook reports a partial object, the end of a
  stream or its failure while some request is pending, and sets \<open>isLoading\<close> to false
  when a stream ends or fails. A title request may resolve at any time.
\<close>

datatype event =
    DragOver
  | DragLeave
  | Drop "File list"
  | Pick "File list"
  | Submit
  | TitleResolved string
  | Partial "slot list"
  | Finish "slot list option"
  | Error
  | Clear

fun step :: "string \<Rightarrow> (File \<Rightarrow> string option) \<Rightarrow> event \<Rightarrow> session \<Rightarrow> session option" where
  "step ua enc DragOver st = (if isQuiz (render st) then None else Some (onDragOver st))"
| "step ua enc DragLeave st = (if isQuiz (render st) then None else Some (onDragLeave st))"
| "step ua enc (Drop fs) st = (if isQuiz (render st) then None else Some (onDrop ua fs st))"
| "step ua enc (Pick fs) st = (if isQuiz (render st) then None else Some (handleFileChange ua fs st))"
| "step ua enc Submit st =
     (if isQuiz (render st) \<or> length (files st) = 0 then None
      else Some (snd (handleSubmitWithFiles enc st)))"
| "step ua enc (TitleResolved t) st = Some (setTitle t st)"
| "step ua enc (Partial p) st =
     (if pending st = 0 then None else Some (st\<lparr>partialQuestions := Some p\<rparr>))"
| "step ua enc (Finish object) st =
     (if pending st = 0 then None
      else Some (onFinish object (st\<lparr>isLoading := False, pending := pending st - 1\<rparr>)))"
| "step ua enc Error st =
     (if pending st = 0 then None
      else Some (onError (st\<lparr>isLoading := False, pending := pending st - 1\<rparr>)))"
| "step ua enc Clear st = (if isQuiz (render st) then Some (clearPDF st) else None)"

fun run :: "string \<Rightarrow> (File \<Rightarrow> string option) \<Rightarrow> event list \<Rightarrow> session \<Rightarrow> session option" where
  "run ua enc [] st = Some st"
| "run ua enc (e # es) st = (case step ua enc e st of None \<Rightarrow> None | Some st1 \<Rightarrow> run ua enc es st1)"

text \<open>
  A run whose submissions do not overlap: every \<open>Submit\<close> happens while no request is
  pending.
\<close>

fun serialized :: "string \<Rightarrow> (File \<Rightarrow> string option) \<Rightarrow> event list \<Rightarrow> session \<Rightarrow> bool" where
  "serialized ua enc [] st = True"
| "serialized ua enc (e # es) st =
     ((e = Submit \<longrightarrow> pending st = 0)
      \<and> (case step ua enc e st of None \<Rightarrow> False | Some st1 \<Rightarrow> serialized ua enc es st1))"

text \<open>
  In such a run at most one request is pending, and while it is the quiz is not on
  screen.
\<close>

definition streaming_inv :: "session \<Rightarrow> bool" where
  "streaming_inv st = (pending st \<le> 1 \<and> (pending st = 1 \<longrightarrow> length (questions st) \<noteq> 4))"

section \<open>Sample inputs\<close>

text \<open>Concrete user agents, files, a reader and streamed questions, used to run the model.\<close>

definition safariUA :: string where
  "safariUA = ''Mozilla/5.0 (Macintosh; Intel Mac OS X 10_15_7) AppleWebKit/605.1.15 (KHTML, like Gecko) Version/17.0 Safari/605.1.15''"

definition chromeUA :: string where
  "chromeUA = ''Mozilla/5.0 (Windows NT 10.0; Win64; x64) AppleWebKit/537.36 (KHTML, like Gecko) Chrome/120.0.0.0 Safari/537.36''"

definition notes_pdf :: File where
  "notes_pdf = \<lparr>f_name = ''notes.pdf'', f_type = ''application/pdf'', f_size = 204800\<rparr>"

definition atlas_pdf :: File where
  "atlas_pdf = \<lparr>f_name = ''atlas.pdf'', f_type = ''application/pdf'', f_size = 5242880\<rparr>"

definition scan_png :: File where
  "scan_png = \<lparr>f_name = ''scan.png'', f_type = ''image/png'', f_size = 1000\<rparr>"

definition reader :: "File \<Rightarrow> string option" where
  "reader f = Some (''data:'' @ f_type f @ '';base64,JVBERi0xLjQK'')"

definition mk :: "string \<Rightarrow> string \<Rightarrow> slot" where
  "mk q a = Some \<lparr>question = Some q, options = Some [''one'', ''two'', ''three'', ''four''], answer = Some a\<rparr>"

definition four :: "slot list" where
  "four = [mk ''Which organelle makes ATP?'' ''A'', mk ''What carries oxygen?'' ''C'',
           mk ''Where is DNA kept?'' ''B'', mk ''What builds proteins?'' ''D'']"

text \<open>A first quiz, generated from \<open>notes.pdf\<close>, with its title resolved.\<close>

definition firstQuiz :: "event list" where
  "firstQuiz = [Pick [notes_pdf], Submit, TitleResolved ''Cell Biology'', Partial (take 2 four),
                Partial four, Finish (Some four)]"

text \<open>A second quiz, from \<open>atlas.pdf\<close>, that completes before its title resolves.\<close>

definition secondQuiz :: "event list" where
  "secondQuiz = [Pick [atlas_pdf], Submit, Finish (Some four)]"

text \<open>
  Two sessions in which a stream fails: one after an earlier stream has left three
  questions, one while the quiz of an overlapping submission is on screen.
\<close>

definition errorAfterThree :: "event list" where
  "errorAfterThree = [Pick [notes_pdf], Submit, Finish (Some (mk [] ''A'' # tl four)),
                      Submit, Partial (take 2 four), Error]"

definition errorOverQuiz :: "event list" where
  "errorOverQuiz = [Pick [notes_pdf], Submit, Submit, Partial four, Finish (Some four), Error]"

text \<open>The session after two drafts have arrived, and after the stream has then failed.\<close>

definition streaming2 :: session where
  "streaming2 = \<lparr>files = [notes_pdf], questions = [], isDragging = False, title = None,
     partialQuestions = Some (take 2 four), isLoading = True, toasts = [], pending = 1\<rparr>"

definition errored2 :: session where
  "errored2 = \<lparr>files = [], questions = [], isDragging = False, title = None,
     partialQuestions = Some (take 2 four), isLoading = False,
     toasts = [''Failed to generate quiz. Please try again.''], pending = 0\<rparr>"

text \<open>The session showing the first quiz, and the session after it has been cleared.\<close>

definition completed1 :: session where
  "completed1 = \<lparr>files = [notes_pdf], questions = four, isDragging = False,
     title = Some ''Cell Biology'', partialQuestions = Some four, isLoading = False, toasts = [],
     pending = 0\<rparr>"

definition cleared1 :: session where
  "cleared1 = \<lparr>files = [], questions = [], isDragging = False,
     title = Some ''Cell Biology'', partialQuestions = Some four, isLoading = False, toasts = [],
     pending = 0\<rparr>"

text \<open>The session showing a quiz whose title has not arrived.\<close>

definition untitled1 :: session where
  "untitled1 = \<lparr>files = [notes_pdf], questions = four, isDragging = False,
     title = None, partialQuestions = None, isLoading = False, toasts = [], pending = 0\<rparr>"

section \<open>Basic facts\<close>

lemma isQuiz_render: "isQuiz (render st) = (length (questions st) = 4)"
  by (simp add: render_def)

lemma handleFileChange_frame:
  "questions (handleFileChange ua fs st) = questions st"
  "isLoading (handleFileChange ua fs st) = isLoading st"
  "title (handleFileChange ua fs st) = title st"
  "pending (handleFileChange ua fs st) = pending st"
  by (simp_all add: handleFileChange_def toast_error_def Let_def)

lemma handleSubmitWithFiles_questions:
  "questions (snd (handleSubmitWithFiles enc st)) = questions st"
  by (simp add: handleSubmitWithFiles_def submit_def Let_def split: option.splits list.splits)

lemma handleSubmitWithFiles_pending:
  "pending (snd (handleSubmitWithFiles enc st)) = pending st
   \<or> pending (snd (handleSubmitWithFiles enc st)) = pending st + 1"
  by (simp add: handleSubmitWithFiles_def submit_def Let_def split: option.splits list.splits)

lemma step_streaming_inv:
  assumes "streaming_inv st" and "step ua enc e st = Some st1" and "e = Submit \<longrightarrow> pending st = 0"
  shows "streaming_inv st1"
proof (cases e)
  case Submit
  with assms have p: "pending st = 0" and n: "length (questions st) \<noteq> 4"
    and s: "st1 = snd (handleSubmitWithFiles enc st)"
    by (auto simp: isQuiz_render split: if_splits)
  from handleSubmitWithFiles_pending [of enc st] p s have "pending st1 \<le> 1" by auto
  with n s show ?thesis
    by (simp add: streaming_inv_def handleSubmitWithFiles_questions)
next
  case (Finish object)
  with assms show ?thesis
    by (auto simp: streaming_inv_def onFinish_def split: if_splits)
next
  case Error
  with assms show ?thesis
    by (auto simp: streaming_inv_def onError_def toast_error_def split: if_splits)
next
  case Clear
  with assms show ?thesis
    by (auto simp: streaming_inv_def clearPDF_def split: if_splits)
qed (use assms in \<open>auto simp: streaming_inv_def onDragOver_def onDragLeave_def onDrop_def
      handleFileChange_frame setTitle_def split: if_splits\<close>)

lemma run_streaming_inv:
  "streaming_inv st \<Longrightarrow> run ua enc evs st = Some st1 \<Longrightarrow> serialized ua enc evs st
     \<Longrightarrow> streaming_inv st1"
proof (induction evs arbitrary: st)
  case Nil
  then show ?case by simp
next
  case (Cons e evs)
  then obtain st2 where s: "step ua enc e st = Some st2" and r: "run ua enc evs st2 = Some st1"
    by (auto split: option.splits)
  from Cons.prems(3) s have g: "e = Submit \<longrightarrow> pending st = 0" and z: "serialized ua enc evs st2"
    by auto
  from Cons.prems(1) s g have "streaming_inv st2" by (rule step_streaming_inv)
  from Cons.IH[OF this r z] show ?case .
qed

lemma initial_streaming_inv: "streaming_inv initial"
  by (simp add: streaming_inv_def initial_def)

lemma run_append:
  "run ua enc (xs @ ys) st = (case run ua enc xs st of None \<Rightarrow> None | Some st1 \<Rightarrow> run ua enc ys st1)"
  by (induction xs arbitrary: st) (auto split: option.splits)

lemma step_title:
  assumes "step ua enc e st = Some st1" and "\<forall>g. e \<noteq> TitleResolved g"
  shows "title st1 = title st"
proof (cases e)
  case Submit
  with assms(1) show ?thesis
    by (auto simp: handleSubmitWithFiles_def submit_def Let_def
        split: if_splits option.splits list.splits)
next
  case (TitleResolved g)
  with assms(2) show ?thesis by simp
qed (use assms(1) in \<open>auto simp: onDragOver_def onDragLeave_def onDrop_def handleFileChange_frame
      onFinish_def onError_def toast_error_def clearPDF_def split: if_splits\<close>)

lemma run_title:
  "run ua enc evs st = Some st1 \<Longrightarrow> \<forall>g. TitleResolved g \<notin> set evs \<Longrightarrow> title st1 = title st"
proof (induction evs arbitrary: st)
  case Nil
  then show ?case by simp
next
  case (Cons e evs)
  then obtain st2 where s: "step ua enc e st = Some st2" and r: "run ua enc evs st2 = Some st1"
    by (auto split: option.splits)
  from Cons.prems(2) have e: "\<forall>g. e \<noteq> TitleResolved g" and es: "\<forall>g. TitleResolved g \<notin> set evs"
    by auto
  from Cons.IH[OF r es] step_title[OF s e] show ?case by simp
qed

lemma step_questions_empty:
  assumes "step ua enc e st = Some st1" and "questions st = []" and "\<forall>ob. e \<noteq> Finish ob"
  shows "questions st1 = []"
proof (cases e)
  case Submit
  with assms(1,2) show ?thesis
    by (auto simp: handleSubmitWithFiles_questions split: if_splits)
next
  case (Finish ob)
  with assms(3) show ?thesis by simp
qed (use assms(1,2) in \<open>auto simp: onDragOver_def onDragLeave_def onDrop_def handleFileChange_frame
      setTitle_def onError_def toast_error_def clearPDF_def split: if_splits\<close>)

lemma run_questions_empty:
  "run ua enc evs st = Some st1 \<Longrightarrow> questions st = [] \<Longrightarrow> \<forall>ob. Finish ob \<notin> set evs
     \<Longrightarrow> questions st1 = []"
proof (induction evs arbitrary: st)
  case Nil
  then show ?case by simp
next
  case (Cons e evs)
  then obtain st2 where s: "step ua enc e st = Some st2" and r: "run ua enc evs st2 = Some st1"
    by (auto split: option.splits)
  from Cons.prems(3) have e: "\<forall>ob. e \<noteq> Finish ob" and es: "\<forall>ob. Finish ob \<notin> set evs"
    by auto
  from step_questions_empty[OF s Cons.prems(2) e] have "questions st2 = []" .
  from Cons.IH[OF r this es] show ?case .
qed

text \<open>
  In a session whose submissions do not overlap, once the quiz is on screen every event
  but \<open>Clear\<close> leaves it there.
\<close>

lemma quiz_left_only_by_Clear:
  assumes "run ua enc evs initial = Some st" and "serialized ua enc evs initial"
    and "isQuiz (render st)" and "step ua enc e st = Some st1" and "e \<noteq> Clear"
  shows "isQuiz (render st1)"
proof -
  from run_streaming_inv[OF initial_streaming_inv assms(1,2)] have "streaming_inv st" .
  with assms(3) have nl: "pending st = 0"
    by (auto simp: streaming_inv_def isQuiz_render)
  from assms(3,4,5) nl show ?thesis
    by (cases e) (auto simp: isQuiz_render setTitle_def split: if_splits)
qed

lemma encodeAll_names:
  "encodeAll enc fs = Some es \<Longrightarrow> map e_name es = map f_name fs"
  by (induction fs arbitrary: es) (auto split: option.splits)

lemma encodeAll_total:
  "(\<forall>f \<in> set fs. enc f \<noteq> None) \<Longrightarrow> encodeAll enc fs \<noteq> None"
  by (induction fs) (auto split: option.splits)

lemma filter_drops_iff:
  "(length (filter P xs) \<noteq> length xs) = (\<exists>x \<in> set xs. \<not> P x)"
proof (induction xs)
  case Nil
  then show ?case by simp
next
  case (Cons x xs)
  have le: "length (filter P xs) \<le> length xs" by (rule length_filter_le)
  show ?case
  proof (cases "P x")
    case True
    with Cons show ?thesis by simp
  next
    case False
    from le have "length (filter P xs) \<noteq> Suc (length xs)" by arith
    with False show ?thesis by simp
  qed
qed

lemma fullQuestion_iff:
  "fullQuestion q = (\<exists>d. q = Some d \<and> question d \<noteq> None \<and> question d \<noteq> Some []
      \<and> options d \<noteq> None \<and> answer d \<noteq> None \<and> answer d \<noteq> Some [])"
  by (auto simp: fullQuestion_def truthy_string_def split: option.splits)

subsection \<open>The sample inputs\<close>

lemma isSafari_safariUA: "isSafari safariUA"
  unfolding safariUA_def by code_simp

lemma not_isSafari_chromeUA: "\<not> isSafari chromeUA"
  unfolding chromeUA_def by code_simp

lemma validFile_samples: "validFile notes_pdf" "validFile atlas_pdf" "\<not> validFile scan_png"
  by (simp_all add: validFile_def notes_pdf_def atlas_pdf_def scan_png_def)

lemma fullQuestion_four: "\<forall>q \<in> set four. fullQuestion q" "length four = 4"
  by (simp_all add: four_def mk_def fullQuestion_def truthy_string_def)

lemma run_streaming2:
  "run chromeUA reader [Pick [notes_pdf], Submit, Partial (take 2 four)] initial = Some streaming2"
  using not_isSafari_chromeUA validFile_samples(1)
  by (simp add: render_def initial_def handleFileChange_def toast_error_def
      handleSubmitWithFiles_def submit_def reader_def streaming2_def)

lemma step_Error_streaming2: "step chromeUA reader Error streaming2 = Some errored2"
  by (simp add: streaming2_def errored2_def onError_def toast_error_def)

lemma serialized_streaming2:
  "serialized chromeUA reader [Pick [notes_pdf], Submit, Partial (take 2 four)] initial"
  using not_isSafari_chromeUA validFile_samples(1)
  by (simp add: render_def initial_def handleFileChange_def toast_error_def
      handleSubmitWithFiles_def submit_def reader_def)

lemma run_errorAfterThree:
  "map_option questions (run chromeUA reader errorAfterThree initial) = Some (tl four)"
  using not_isSafari_chromeUA validFile_samples(1)
  by (simp add: errorAfterThree_def render_def initial_def handleFileChange_def toast_error_def
      handleSubmitWithFiles_def submit_def reader_def onFinish_def onError_def
      four_def mk_def fullQuestion_def truthy_string_def)

lemma run_errorOverQuiz:
  "map_option render (run chromeUA reader errorOverQuiz initial) = Some (Quiz ''Quiz'' four)"
  using not_isSafari_chromeUA validFile_samples(1) fullQuestion_four
  by (simp add: errorOverQuiz_def render_def initial_def handleFileChange_def toast_error_def
      handleSubmitWithFiles_def submit_def reader_def onFinish_def onError_def)

lemma run_firstQuiz: "run chromeUA reader firstQuiz initial = Some completed1"
  using not_isSafari_chromeUA validFile_samples(1) fullQuestion_four
  by (simp add: firstQuiz_def render_def initial_def handleFileChange_def toast_error_def
      handleSubmitWithFiles_def submit_def reader_def setTitle_def onFinish_def completed1_def)

lemma step_Clear_completed1: "step chromeUA reader Clear completed1 = Some cleared1"
  using fullQuestion_four(2) by (simp add: isQuiz_render completed1_def cleared1_def clearPDF_def)

lemma run_secondQuiz:
  "run chromeUA reader secondQuiz cleared1
     = Some (cleared1\<lparr>files := [atlas_pdf], questions := four, partialQuestions := None\<rparr>)"
  using not_isSafari_chromeUA validFile_samples(2) fullQuestion_four
  by (simp add: secondQuiz_def render_def cleared1_def handleFileChange_def toast_error_def
      handleSubmitWithFiles_def submit_def reader_def onFinish_def)

lemma run_untitled1:
  "run chromeUA reader [Pick [notes_pdf], Submit, Finish (Some four)] initial = Some untitled1"
  using not_isSafari_chromeUA validFile_samples(1) fullQuestion_four
  by (simp add: render_def initial_def handleFileChange_def toast_error_def
      handleSubmitWithFiles_def submit_def reader_def onFinish_def untitled1_def)

section \<open>The claims\<close>

text \<open>
  C1 (as amended). After \<open>onFinish\<close> the stored questions are the elements of the finished
  object that pass the full-field check: none when the object is \<open>undefined\<close>, all four
  when the object holds four fully populated questions, and in general as many as pass
  the check, never more than the object holds. The quiz is rendered exactly when that
  number is 4.
\<close>

theorem onFinish_length:
  "questions (onFinish None st) = []
   \<and> (length object = 4 \<and> (\<forall>q \<in> set object. fullQuestion q)
        \<longrightarrow> questions (onFinish (Some object) st) = object
            \<and> length (questions (onFinish (Some object) st)) = 4)
   \<and> length (questions (onFinish (Some object) st)) = length (filter fullQuestion object)
   \<and> length (questions (onFinish (Some object) st)) \<le> length object
   \<and> isQuiz (render (onFinish ob st)) = (length (questions (onFinish ob st)) = 4)"
  by (simp add: onFinish_def isQuiz_render)

theorem onFinish_length_witness:
  "length four = 4 \<and> list_all fullQuestion four
   \<and> questions (onFinish (Some four) initial) = four
   \<and> questions (onFinish None initial) = []
   \<and> isQuiz (render (onFinish (Some four) initial))"
  using onFinish_length [of initial four "Some four"] fullQuestion_four
  by (simp add: list_all_iff)

text \<open>
  C1 as stated fails: a finished object of four questions of which the first has the
  empty string as its text leaves three questions in the state.
\<close>

theorem onFinish_length_counterexample:
  "length (questions (onFinish (Some (mk [] ''A'' # tl four)) initial)) = 3"
  by (simp add: onFinish_def four_def mk_def fullQuestion_def truthy_string_def)

text \<open>
  C2. Without a streamed object the progress is 0 and the status line is
  \<open>Analyzing PDF content\<close>. With one, the status line is \<open>Generating question n of 4\<close>
  where \<open>n\<close> is one more than the number of slots that are not \<open>undefined\<close>. For a single
  draft the line reads \<open>Generating question 2 of 4\<close> and the percentage is 25.
\<close>

theorem LoadingProgress_label:
  "progress None = 0
   \<and> LoadingProgress True (progress None) None
       = Some \<lparr>percent = 0, bar = 0, label = ''Analyzing PDF content''\<rparr>
   \<and> map_option label (LoadingProgress True (progress (Some p)) (Some p))
       = Some (''Generating question '' @ string_of_nat (length (filter (\<lambda>q. q \<noteq> None) p) + 1) @ '' of 4'')
   \<and> LoadingProgress True (progress (Some [Some d0])) (Some [Some d0])
       = Some \<lparr>percent = 25, bar = 25, label = ''Generating question 2 of 4''\<rparr>"
  by (simp add: LoadingProgress_def progress_def Math_round_def digit_def)

theorem LoadingProgress_label_witness:
  "map_option label (LoadingProgress True (progress (Some [None, mk ''Where is DNA kept?'' ''B'', None]))
       (Some [None, mk ''Where is DNA kept?'' ''B'', None]))
     = Some ''Generating question 2 of 4''"
  using LoadingProgress_label [of "[None, mk ''Where is DNA kept?'' ''B'', None]"]
  by (simp add: mk_def digit_def)

text \<open>
  C3. The progress is 0 without a streamed object and \<open>(n / 4) * 100 = 25 * n\<close> for an
  object of \<open>n\<close> drafts, hence between 0 and 100 for up to four drafts; an emission with
  at least as many drafts as an earlier one has at least its progress.
\<close>

theorem progress_monotone:
  "progress None = 0
   \<and> progress (Some p) = (real (length p) / 4) * 100
   \<and> progress (Some p) = 25 * real (length p)
   \<and> (length p \<le> 4 \<longrightarrow> 0 \<le> progress (Some p) \<and> progress (Some p) \<le> 100)
   \<and> progress None \<le> progress (Some p)
   \<and> (length p \<le> length p1 \<longrightarrow> progress (Some p) \<le> progress (Some p1))"
  by (simp add: progress_def)

theorem progress_monotone_witness:
  "length (take 2 four) \<le> 4 \<and> length (take 2 four) \<le> length four
   \<and> progress (Some (take 2 four)) = 50 \<and> progress (Some four) = 100
   \<and> progress (Some (take 2 four)) \<le> progress (Some four)"
  using progress_monotone [of "take 2 four" four] progress_monotone [of four four]
    fullQuestion_four(2)
  by simp

text \<open>
  C4 (as amended). Unless the browser is Safari and a drag gesture is under way, the
  staged files become exactly the selected files that are PDFs of at most
  \<open>5 * 1024 * 1024\<close> bytes, in their order; every other file is left out, and the warning
  is raised exactly when some file is left out. On Safari during a drag gesture nothing
  is staged: the staged files stay as they were and a warning asks for the file picker.
  A drop goes through the same handler as the picker.
\<close>

theorem handleFileChange_accepts:
  "(\<not> (isSafari ua \<and> isDragging st) \<longrightarrow>
      files (handleFileChange ua sel st) = filter validFile sel
      \<and> (\<forall>f \<in> set (files (handleFileChange ua sel st)).
            f_type f = ''application/pdf'' \<and> f_size f \<le> 5 * 1024 * 1024)
      \<and> (\<forall>f \<in> set sel. f_type f \<noteq> ''application/pdf'' \<or> f_size f > 5 * 1024 * 1024
            \<longrightarrow> f \<notin> set (files (handleFileChange ua sel st)))
      \<and> toasts (handleFileChange ua sel st)
          = (if \<exists>f \<in> set sel. \<not> validFile f
             then toasts st @ [''Only PDF files under 5MB are allowed.''] else toasts st))
   \<and> (isSafari ua \<and> isDragging st \<longrightarrow>
        files (handleFileChange ua sel st) = files st
        \<and> toasts (handleFileChange ua sel st)
            = toasts st @ [''Safari does not support drag & drop. Please use the file picker.''])
   \<and> files (onDrop ua sel st) = files (handleFileChange ua sel st)
   \<and> toasts (onDrop ua sel st) = toasts (handleFileChange ua sel st)"
  by (auto simp: handleFileChange_def onDrop_def toast_error_def Let_def validFile_def filter_drops_iff)

theorem handleFileChange_accepts_witness:
  "\<not> (isSafari chromeUA \<and> isDragging (onDragOver initial))
   \<and> files (onDrop chromeUA [notes_pdf, scan_png, atlas_pdf] (onDragOver initial)) = [notes_pdf, atlas_pdf]
   \<and> toasts (onDrop chromeUA [notes_pdf, scan_png, atlas_pdf] (onDragOver initial))
       = [''Only PDF files under 5MB are allowed.'']
   \<and> isSafari safariUA \<and> isDragging (onDragOver initial)
   \<and> toasts (handleFileChange safariUA [notes_pdf] (onDragOver initial))
       = [''Safari does not support drag & drop. Please use the file picker.'']"
  using handleFileChange_accepts [of chromeUA "onDragOver initial" "[notes_pdf, scan_png, atlas_pdf]"]
    handleFileChange_accepts [of safariUA "onDragOver initial" "[notes_pdf]"]
    isSafari_safariUA not_isSafari_chromeUA validFile_samples
  by (simp add: onDragOver_def initial_def)

text \<open>
  C4 as stated fails: on Safari, a valid PDF dropped after a drag over the zone is not
  staged.
\<close>

theorem handleFileChange_accepts_counterexample:
  "validFile notes_pdf \<and> files (onDrop safariUA [notes_pdf] (onDragOver initial)) = []"
  using isSafari_safariUA validFile_samples(1)
  by (simp add: onDrop_def onDragOver_def handleFileChange_def toast_error_def initial_def)

text \<open>
  C5. \<open>onFinish\<close> stores exactly the elements of the finished object, in their order,
  that are objects whose \<open>question\<close> and \<open>answer\<close> are non-empty strings and whose
  \<open>options\<close> are present; without an object it stores the empty list. The other elements
  are dropped without a notification, and the staged files are untouched.
\<close>

theorem onFinish_filters:
  "questions (onFinish (Some object) st)
     = filter (\<lambda>q. \<exists>d. q = Some d \<and> question d \<noteq> None \<and> question d \<noteq> Some []
                     \<and> options d \<noteq> None \<and> answer d \<noteq> None \<and> answer d \<noteq> Some []) object
   \<and> questions (onFinish None st) = []
   \<and> toasts (onFinish ob st) = toasts st
   \<and> files (onFinish ob st) = files st"
proof -
  have "fullQuestion = (\<lambda>q. \<exists>d. q = Some d \<and> question d \<noteq> None \<and> question d \<noteq> Some []
          \<and> options d \<noteq> None \<and> answer d \<noteq> None \<and> answer d \<noteq> Some [])"
    by (rule ext) (rule fullQuestion_iff)
  then show ?thesis by (simp add: onFinish_def)
qed

theorem onFinish_filters_witness:
  "questions (onFinish (Some [None, mk ''Where is DNA kept?'' ''B'',
        Some \<lparr>question = Some ''What builds proteins?'', options = None, answer = Some ''D''\<rparr>,
        mk ''What carries oxygen?'' ''C'']) streaming2)
     = [mk ''Where is DNA kept?'' ''B'', mk ''What carries oxygen?'' ''C'']
   \<and> toasts (onFinish (Some [None]) streaming2) = []"
  using onFinish_filters [of "[None, mk ''Where is DNA kept?'' ''B'',
        Some \<lparr>question = Some ''What builds proteins?'', options = None, answer = Some ''D''\<rparr>,
        mk ''What carries oxygen?'' ''C'']" streaming2 "Some [None]"]
  by (simp add: mk_def streaming2_def)

text \<open>
  C6 (as amended). When a stream fails, whatever drafts have arrived, the handler raises
  the error notification and empties the staged files, and it changes nothing else: the
  stored questions, the title and the dragging flag are left as they were. The view
  after the error is therefore the quiz exactly when four questions were stored before
  it; otherwise it is the upload card with no progress footer and with the submit
  control disabled, and staging a valid file makes the form submittable again. Four
  questions are never stored at that moment in a session whose submissions do not
  overlap, and the stored questions are empty when no stream of the session has finished
  before the error.
\<close>

theorem onError_resets:
  assumes "run ua enc evs initial = Some st" and "step ua enc Error st = Some st1"
  shows "toasts st1 = toasts st @ [''Failed to generate quiz. Please try again.'']
         \<and> files st1 = []
         \<and> questions st1 = questions st \<and> title st1 = title st \<and> isDragging st1 = isDragging st
         \<and> \<not> isLoading st1
         \<and> isQuiz (render st1) = (length (questions st) = 4)
         \<and> (length (questions st) \<noteq> 4
              \<longrightarrow> (\<exists>c. render st1 = Upload c \<and> submitDisabled c \<and> footer c = None))
         \<and> (length (questions st) \<noteq> 4 \<and> validFile f \<and> \<not> (isSafari ua \<and> isDragging st1)
              \<longrightarrow> step ua enc Submit (handleFileChange ua [f] st1) \<noteq> None)
         \<and> (serialized ua enc evs initial \<longrightarrow> length (questions st) \<noteq> 4)
         \<and> ((\<forall>ob. Finish ob \<notin> set evs) \<longrightarrow> questions st1 = [])"
proof -
  from assms(2) have p: "pending st \<noteq> 0"
    and s: "st1 = onError (st\<lparr>isLoading := False, pending := pending st - 1\<rparr>)"
    by (auto split: if_splits)
  from s have a: "toasts st1 = toasts st @ [''Failed to generate quiz. Please try again.'']
         \<and> files st1 = []
         \<and> questions st1 = questions st \<and> title st1 = title st \<and> isDragging st1 = isDragging st
         \<and> \<not> isLoading st1"
    by (simp add: onError_def toast_error_def)
  then have b: "isQuiz (render st1) = (length (questions st) = 4)"
    by (simp add: isQuiz_render)
  have c: "\<exists>c. render st1 = Upload c \<and> submitDisabled c \<and> footer c = None"
    if "length (questions st) \<noteq> 4"
    using that a by (simp add: render_def LoadingProgress_def)
  have d: "step ua enc Submit (handleFileChange ua [f] st1) \<noteq> None"
    if n4: "length (questions st) \<noteq> 4" and v: "validFile f"
      and g: "\<not> (isSafari ua \<and> isDragging st1)"
  proof -
    from v g have "files (handleFileChange ua [f] st1) = [f]"
      by (auto simp: handleFileChange_def Let_def)
    with a n4 show ?thesis
      by (simp add: isQuiz_render handleFileChange_frame)
  qed
  have e: "length (questions st) \<noteq> 4" if z: "serialized ua enc evs initial"
  proof -
    from run_streaming_inv[OF initial_streaming_inv assms(1) z] have "streaming_inv st" .
    with p show ?thesis by (auto simp: streaming_inv_def)
  qed
  have f: "questions st1 = []" if "\<forall>ob. Finish ob \<notin> set evs"
  proof -
    from run_questions_empty[OF assms(1) _ that] have "questions st = []"
      by (simp add: initial_def)
    with a show ?thesis by simp
  qed
  from a b c d e f show ?thesis by blast
qed

theorem onError_resets_witness:
  "run chromeUA reader [Pick [notes_pdf], Submit, Partial (take 2 four)] initial = Some streaming2
   \<and> step chromeUA reader Error streaming2 = Some errored2
   \<and> serialized chromeUA reader [Pick [notes_pdf], Submit, Partial (take 2 four)] initial
   \<and> length (questions streaming2) \<noteq> 4
   \<and> files errored2 = [] \<and> questions errored2 = []
   \<and> \<not> isQuiz (render errored2)
   \<and> validFile atlas_pdf \<and> \<not> (isSafari chromeUA \<and> isDragging errored2)
   \<and> step chromeUA reader Submit (handleFileChange chromeUA [atlas_pdf] errored2) \<noteq> None"
  using onError_resets [OF run_streaming2 step_Error_streaming2, of atlas_pdf]
    run_streaming2 step_Error_streaming2 serialized_streaming2
    validFile_samples(2) not_isSafari_chromeUA
  by (simp add: streaming2_def del: run.simps step.simps serialized.simps)

text \<open>
  C6 as stated fails. A stream that fails after an earlier stream of the session has
  stored three questions leaves those three stored, and a stream that fails while the
  quiz of an overlapping submission is on screen leaves the quiz there.
\<close>

theorem onError_resets_counterexample:
  "map_option questions (run chromeUA reader errorAfterThree initial) = Some (tl four)
   \<and> length (tl four) = 3
   \<and> map_option render (run chromeUA reader errorOverQuiz initial) = Some (Quiz ''Quiz'' four)"
  using run_errorAfterThree run_errorOverQuiz
  by (simp add: four_def)

text \<open>
  C7. The page returns the quiz if and only if the stored questions number exactly 4,
  and the upload card otherwise. What the hook reports (\<open>isLoading\<close>, the streamed
  object) has no part in the choice.
\<close>

theorem quiz_iff_four:
  "isQuiz (render st) = (length (questions st) = 4)
   \<and> (length (questions st) = 4 \<longrightarrow> (\<exists>t. render st = Quiz t (questions st)))
   \<and> (length (questions st) \<noteq> 4 \<longrightarrow> (\<exists>c. render st = Upload c))
   \<and> isQuiz (render (st\<lparr>partialQuestions := pq, isLoading := l\<rparr>)) = isQuiz (render st)"
  by (simp add: render_def)

theorem quiz_iff_four_witness:
  "length (questions completed1) = 4 \<and> isQuiz (render completed1)
   \<and> length (questions streaming2) \<noteq> 4 \<and> \<not> isQuiz (render streaming2)
   \<and> \<not> isQuiz (render (streaming2\<lparr>partialQuestions := Some four, isLoading := False\<rparr>))"
  using quiz_iff_four [of completed1]
    quiz_iff_four [where st = streaming2 and pq = "Some four" and l = False]
    fullQuestion_four(2)
  by (simp add: completed1_def streaming2_def)

text \<open>
  C8, at a failing input. After the first quiz with its title \<open>Cell Biology\<close>,
  \<open>clearPDF\<close> empties the staged files and the questions but keeps the title, so the
  session is not back at its initial state; a second quiz that completes before its own
  title arrives is shown under the title of the first.
\<close>

theorem clearPDF_keeps_title:
  "run chromeUA reader (firstQuiz @ [Clear]) initial = Some cleared1
   \<and> files cleared1 = [] \<and> questions cleared1 = []
   \<and> title cleared1 = Some ''Cell Biology'' \<and> title initial = None
   \<and> cleared1 \<noteq> initial
   \<and> map_option render (run chromeUA reader (firstQuiz @ [Clear] @ secondQuiz) initial)
       = Some (Quiz ''Cell Biology'' four)"
proof -
  have a: "run chromeUA reader (firstQuiz @ [Clear]) initial = Some cleared1"
    by (simp only: run_append run_firstQuiz option.case run.simps step_Clear_completed1)
  have "run chromeUA reader (firstQuiz @ [Clear] @ secondQuiz) initial
      = run chromeUA reader ([Clear] @ secondQuiz) completed1"
    by (simp only: run_append [of _ _ firstQuiz] run_firstQuiz option.case)
  also have "\<dots> = run chromeUA reader secondQuiz cleared1"
    by (simp only: append_Cons append_Nil run.simps step_Clear_completed1 option.case)
  also have "\<dots> = Some (cleared1\<lparr>files := [atlas_pdf], questions := four, partialQuestions := None\<rparr>)"
    by (rule run_secondQuiz)
  finally have r: "run chromeUA reader (firstQuiz @ [Clear] @ secondQuiz) initial
      = Some (cleared1\<lparr>files := [atlas_pdf], questions := four, partialQuestions := None\<rparr>)" .
  have "render (cleared1\<lparr>files := [atlas_pdf], questions := four, partialQuestions := None\<rparr>)
      = Quiz ''Cell Biology'' four"
    using fullQuestion_four(2) by (simp add: render_def cleared1_def)
  with r have b: "map_option render (run chromeUA reader (firstQuiz @ [Clear] @ secondQuiz) initial)
       = Some (Quiz ''Cell Biology'' four)"
    by (simp only: option.map)
  have c: "cleared1 \<noteq> initial \<and> files cleared1 = [] \<and> questions cleared1 = []
      \<and> title cleared1 = Some ''Cell Biology'' \<and> title initial = None"
    by (simp add: cleared1_def initial_def)
  from a b c show ?thesis by simp
qed

text \<open>
  C9. \<open>handleSubmitWithFiles\<close> reads \<open>encodedFiles[0].name\<close> with no check of its own: with
  no staged file the read fails with a \<open>TypeError\<close>. The submit button is enabled only
  when a file is staged, and with a staged file the read never fails: when the
  encodings succeed, the title is requested for the name of the first staged file.
\<close>

theorem first_encoded_in_bounds:
  "(render st = Upload c \<and> \<not> submitDisabled c \<longrightarrow> files st \<noteq> [])
   \<and> (files st \<noteq> [] \<longrightarrow> fst (handleSubmitWithFiles enc st) \<noteq> Inl TypeError)
   \<and> (files st \<noteq> [] \<and> (\<forall>f \<in> set (files st). enc f \<noteq> None)
        \<longrightarrow> fst (handleSubmitWithFiles enc st) = Inr (f_name (hd (files st))))
   \<and> (files st = [] \<longrightarrow> fst (handleSubmitWithFiles enc st) = Inl TypeError)"
proof -
  have a: "render st = Upload c \<and> \<not> submitDisabled c \<longrightarrow> files st \<noteq> []"
    by (auto simp: render_def split: if_splits)
  have b: "fst (handleSubmitWithFiles enc st) \<noteq> Inl TypeError" if "files st \<noteq> []"
  proof (cases "encodeAll enc (files st)")
    case None
    then show ?thesis by (simp add: handleSubmitWithFiles_def)
  next
    case (Some es)
    from encodeAll_names[OF Some] that have "es \<noteq> []" by auto
    with Some show ?thesis
      by (simp add: handleSubmitWithFiles_def Let_def split: list.splits)
  qed
  have c: "fst (handleSubmitWithFiles enc st) = Inr (f_name (hd (files st)))"
    if ne: "files st \<noteq> []" and ok: "\<forall>f \<in> set (files st). enc f \<noteq> None"
  proof -
    from encodeAll_total[OF ok] obtain es where es: "encodeAll enc (files st) = Some es"
      by auto
    from encodeAll_names[OF es] have n: "map e_name es = map f_name (files st)" .
    with ne obtain e es1 where ees: "es = e # es1" by (cases es) auto
    with n ne have "e_name e = f_name (hd (files st))" by (cases "files st") auto
    with es ees show ?thesis by (simp add: handleSubmitWithFiles_def Let_def)
  qed
  have d: "files st = [] \<longrightarrow> fst (handleSubmitWithFiles enc st) = Inl TypeError"
    by (simp add: handleSubmitWithFiles_def Let_def)
  from a b c d show ?thesis by blast
qed

theorem first_encoded_in_bounds_witness:
  "(\<exists>c. render streaming2 = Upload c \<and> \<not> submitDisabled c)
   \<and> files streaming2 \<noteq> [] \<and> list_all (\<lambda>f. reader f \<noteq> None) (files streaming2)
   \<and> fst (handleSubmitWithFiles reader streaming2) = Inr ''notes.pdf''
   \<and> files initial = [] \<and> fst (handleSubmitWithFiles reader initial) = Inl TypeError"
  using first_encoded_in_bounds [of streaming2 _ reader] first_encoded_in_bounds [of initial _ reader]
  by (simp add: streaming2_def notes_pdf_def reader_def initial_def render_def)

text \<open>
  C10. When the quiz is rendered and the stored title is \<open>undefined\<close>, the title shown is
  \<open>Quiz\<close>; in particular this is so in every session in which no title request has
  resolved yet. Once \<open>setTitle\<close> has stored a title, that string is shown.
\<close>

theorem quiz_title_fallback:
  "(length (questions st) = 4 \<and> title st = None \<longrightarrow> render st = Quiz ''Quiz'' (questions st))
   \<and> (length (questions st) = 4 \<and> title st = Some t \<longrightarrow> render st = Quiz t (questions st))
   \<and> (length (questions st) = 4 \<longrightarrow> render (setTitle g st) = Quiz g (questions st))
   \<and> (run ua enc evs initial = Some st1 \<and> (\<forall>g. TitleResolved g \<notin> set evs) \<and> isQuiz (render st1)
        \<longrightarrow> render st1 = Quiz ''Quiz'' (questions st1))"
proof -
  have "render st1 = Quiz ''Quiz'' (questions st1)"
    if r: "run ua enc evs initial = Some st1" and n: "\<forall>g. TitleResolved g \<notin> set evs"
      and q: "isQuiz (render st1)"
  proof -
    from run_title[OF r n] have "title st1 = None" by (simp add: initial_def)
    with q show ?thesis by (simp add: render_def split: if_splits)
  qed
  then show ?thesis by (auto simp: render_def setTitle_def)
qed

theorem quiz_title_fallback_witness:
  "length (questions completed1) = 4
   \<and> render (completed1\<lparr>title := None\<rparr>) = Quiz ''Quiz'' four
   \<and> render completed1 = Quiz ''Cell Biology'' four
   \<and> render (setTitle ''Cell Biology'' (completed1\<lparr>title := None\<rparr>)) = Quiz ''Cell Biology'' four
   \<and> run chromeUA reader [Pick [notes_pdf], Submit, Finish (Some four)] initial = Some untitled1
   \<and> (\<forall>g. TitleResolved g \<notin> set [Pick [notes_pdf], Submit, Finish (Some four)])
   \<and> isQuiz (render untitled1)
   \<and> render untitled1 = Quiz ''Quiz'' four"
  using quiz_title_fallback [where st = "completed1\<lparr>title := None\<rparr>" and g = "''Cell Biology''"
      and ua = chromeUA and enc = reader and evs = "[Pick [notes_pdf], Submit, Finish (Some four)]"
      and ?st1.0 = untitled1]
    quiz_title_fallback [where st = completed1 and t = "''Cell Biology''"]
    run_untitled1 fullQuestion_four(2)
  by (simp add: completed1_def untitled1_def isQuiz_render)

end
